theory Spec2Isabelle
  imports Main
begin

section \<open>Python values and the operations the script performs on them\<close>

text \<open>
  The script \<^verbatim>\<open>lib/dng_sdk/dng_sdk.py\<close> builds one nested literal
  (\<^verbatim>\<open>gyp_build_object\<close>), parses one command-line option, appends two strings
  to a list inside the literal and prints the object. The literal is made of strings,
  lists and dictionaries only; a dictionary is kept as an association list in the order
  of the literal.
\<close>

datatype pyval =
    Str string
  | Lst "pyval list"
  | Dict "(string \<times> pyval) list"

text \<open>
  The exceptions the subscript and \<^verbatim>\<open>append\<close> expressions can raise, and the exit of
  \<^verbatim>\<open>parse_args\<close> on an argument error (\<^verbatim>\<open>parser.error\<close> ends the process with
  status 2).
\<close>

datatype error =
    KeyError
  | IndexError
  | TypeError
  | AttributeError
  | ImportError
  | SystemExit nat

definition bind_res :: "error + 'a \<Rightarrow> ('a \<Rightarrow> error + 'b) \<Rightarrow> error + 'b" where
  "bind_res r f = (case r of Inl e \<Rightarrow> Inl e | Inr x \<Rightarrow> f x)"

text \<open>\<^verbatim>\<open>obj[k]\<close> for a string key \<open>k\<close>.\<close>

fun getitem_key :: "pyval \<Rightarrow> string \<Rightarrow> error + pyval" where
  "getitem_key (Dict kvs) k =
     (case map_of kvs k of None \<Rightarrow> Inl KeyError | Some v \<Rightarrow> Inr v)"
| "getitem_key (Lst xs) k = Inl TypeError"
| "getitem_key (Str s) k = Inl TypeError"

text \<open>\<^verbatim>\<open>obj[i]\<close> for a non-negative integer index \<open>i\<close>.\<close>

fun getitem_idx :: "pyval \<Rightarrow> nat \<Rightarrow> error + pyval" where
  "getitem_idx (Lst xs) i = (if i < length xs then Inr (xs ! i) else Inl IndexError)"
| "getitem_idx (Str s) i = (if i < length s then Inr (Str [s ! i]) else Inl IndexError)"
| "getitem_idx (Dict kvs) i = Inl KeyError"

text \<open>
  \<^verbatim>\<open>obj.append(v)\<close>: only a list has the method. The list object is changed in place;
  the model returns the changed list.
\<close>

fun append_py :: "pyval \<Rightarrow> pyval \<Rightarrow> error + pyval" where
  "append_py (Lst xs) v = Inr (Lst (xs @ [v]))"
| "append_py (Str s) v = Inl AttributeError"
| "append_py (Dict kvs) v = Inl AttributeError"

text \<open>
  The script never assigns to a subscript: it reaches the list through
  \<^verbatim>\<open>gyp_build_object['targets'][0]['defines']\<close> and changes that list object in
  place, which every container on the way then shows. With values instead of
  references, the changed list is written back at the place it was read from.
  \<open>put_key\<close> and \<open>put_idx\<close> do that; they are used only after the matching read
  has succeeded, and they leave every other key and index as it was.
\<close>

fun put_key :: "pyval \<Rightarrow> string \<Rightarrow> pyval \<Rightarrow> pyval" where
  "put_key (Dict kvs) k v = Dict (map (\<lambda>(k', v'). if k' = k then (k', v) else (k', v')) kvs)"
| "put_key (Lst xs) k v = Lst xs"
| "put_key (Str s) k v = Str s"

fun put_idx :: "pyval \<Rightarrow> nat \<Rightarrow> pyval \<Rightarrow> pyval" where
  "put_idx (Lst xs) i v = Lst (xs[i := v])"
| "put_idx (Str s) i v = Str s"
| "put_idx (Dict kvs) i v = Dict kvs"

section \<open>The build object\<close>

definition sources :: "pyval list" where
  "sources =
    [
     Str ''./dng_validate.cpp'', Str ''./dng_1d_function.cpp'', Str ''./dng_1d_function.h'',
     Str ''./dng_1d_table.cpp'', Str ''./dng_1d_table.h'', Str ''./dng_abort_sniffer.cpp'',
     Str ''./dng_abort_sniffer.h'', Str ''./dng_area_task.cpp'', Str ''./dng_area_task.h'',
     Str ''./dng_assertions.h'', Str ''./dng_auto_ptr.h'', Str ''./dng_bad_pixels.cpp'',
     Str ''./dng_bad_pixels.h'', Str ''./dng_bottlenecks.cpp'', Str ''./dng_bottlenecks.h'',
     Str ''./dng_camera_profile.cpp'', Str ''./dng_camera_profile.h'', Str ''./dng_classes.h'',
     Str ''./dng_color_space.cpp'', Str ''./dng_color_space.h'', Str ''./dng_color_spec.cpp'',
     Str ''./dng_color_spec.h'', Str ''./dng_date_time.cpp'', Str ''./dng_date_time.h'',
     Str ''./dng_errors.h'', Str ''./dng_exceptions.cpp'', Str ''./dng_exceptions.h'',
     Str ''./dng_exif.cpp'', Str ''./dng_exif.h'', Str ''./dng_fast_module.h'',
     Str ''./dng_file_stream.cpp'', Str ''./dng_file_stream.h'', Str ''./dng_filter_task.cpp'',
     Str ''./dng_filter_task.h'', Str ''./dng_fingerprint.cpp'', Str ''./dng_fingerprint.h'',
     Str ''./dng_flags.h'', Str ''./dng_gain_map.cpp'', Str ''./dng_gain_map.h'',
     Str ''./dng_globals.cpp'', Str ''./dng_globals.h'', Str ''./dng_host.cpp'',
     Str ''./dng_host.h'', Str ''./dng_hue_sat_map.cpp'', Str ''./dng_hue_sat_map.h'',
     Str ''./dng_ifd.cpp'', Str ''./dng_ifd.h'', Str ''./dng_image.cpp'',
     Str ''./dng_image.h'', Str ''./dng_image_writer.cpp'', Str ''./dng_image_writer.h'',
     Str ''./dng_info.cpp'', Str ''./dng_info.h'', Str ''./dng_iptc.cpp'',
     Str ''./dng_iptc.h'', Str ''./dng_jpeg_image.cpp'', Str ''./dng_jpeg_image.h'',
     Str ''./dng_lens_correction.cpp'', Str ''./dng_lens_correction.h'', Str ''./dng_linearization_info.cpp'',
     Str ''./dng_linearization_info.h'', Str ''./dng_lossless_jpeg.cpp'', Str ''./dng_lossless_jpeg.h'',
     Str ''./dng_matrix.cpp'', Str ''./dng_matrix.h'', Str ''./dng_memory.cpp'',
     Str ''./dng_memory.h'', Str ''./dng_memory_stream.cpp'', Str ''./dng_memory_stream.h'',
     Str ''./dng_misc_opcodes.cpp'', Str ''./dng_misc_opcodes.h'', Str ''./dng_mosaic_info.cpp'',
     Str ''./dng_mosaic_info.h'', Str ''./dng_mutex.cpp'', Str ''./dng_mutex.h'',
     Str ''./dng_negative.cpp'', Str ''./dng_negative.h'', Str ''./dng_opcode_list.cpp'',
     Str ''./dng_opcode_list.h'', Str ''./dng_opcodes.cpp'', Str ''./dng_opcodes.h'',
     Str ''./dng_orientation.cpp'', Str ''./dng_orientation.h'', Str ''./dng_parse_utils.cpp'',
     Str ''./dng_parse_utils.h'', Str ''./dng_pixel_buffer.cpp'', Str ''./dng_pixel_buffer.h'',
     Str ''./dng_point.cpp'', Str ''./dng_point.h'', Str ''./dng_preview.cpp'',
     Str ''./dng_preview.h'', Str ''./dng_pthread.cpp'', Str ''./dng_pthread.h'',
     Str ''./dng_rational.cpp'', Str ''./dng_rational.h'', Str ''./dng_read_image.cpp'',
     Str ''./dng_read_image.h'', Str ''./dng_rect.cpp'', Str ''./dng_rect.h'',
     Str ''./dng_ref_counted_block.cpp'', Str ''./dng_ref_counted_block.h'', Str ''./dng_reference.cpp'',
     Str ''./dng_reference.h'', Str ''./dng_render.cpp'', Str ''./dng_render.h'',
     Str ''./dng_resample.cpp'', Str ''./dng_resample.h'', Str ''./dng_sdk_limits.h'',
     Str ''./dng_shared.cpp'', Str ''./dng_shared.h'', Str ''./dng_simple_image.cpp'',
     Str ''./dng_simple_image.h'', Str ''./dng_spline.cpp'', Str ''./dng_spline.h'',
     Str ''./dng_stream.cpp'', Str ''./dng_stream.h'', Str ''./dng_string.cpp'',
     Str ''./dng_string.h'', Str ''./dng_string_list.cpp'', Str ''./dng_string_list.h'',
     Str ''./dng_tag_codes.h'', Str ''./dng_tag_types.cpp'', Str ''./dng_tag_types.h'',
     Str ''./dng_tag_values.h'', Str ''./dng_temperature.cpp'', Str ''./dng_temperature.h'',
     Str ''./dng_tile_iterator.cpp'', Str ''./dng_tile_iterator.h'', Str ''./dng_tone_curve.cpp'',
     Str ''./dng_tone_curve.h'', Str ''./dng_types.h'', Str ''./dng_uncopyable.h'',
     Str ''./dng_utils.cpp'', Str ''./dng_utils.h'', Str ''./dng_xmp.cpp'',
     Str ''./dng_xmp.h'', Str ''./dng_xmp_sdk.cpp'', Str ''./dng_xmp_sdk.h'',
     Str ''./dng_xy_coord.cpp'', Str ''./dng_xy_coord.h''
    ]"

definition target :: pyval where
  "target = Dict
    [ (''target_name'', Str ''dng_sdk''),
      (''type'', Str ''static_library''),
      (''include_dirs'', Lst []),
      (''defines'', Lst [Str ''<@(default_defines)'', Str ''qDNGXMPFiles=0'', Str ''qDNGXMPDocOps=0'']),
      (''includes'', Lst [Str ''../xmp_sdk/xmp_sdk.gypi'']),
      (''sources'', Lst sources) ]"

definition gyp_build_object :: pyval where
  "gyp_build_object = Dict [ (''targets'', Lst [target]) ]"


text \<open>\<^verbatim>\<open>g['targets'][0][k]\<close>: one field of the first target.\<close>

definition target_field :: "pyval \<Rightarrow> string \<Rightarrow> error + pyval" where
  "target_field g k =
     bind_res (getitem_key g ''targets'') (\<lambda>ts.
     bind_res (getitem_idx ts 0) (\<lambda>t.
     getitem_key t k))"

section \<open>The option parser\<close>

text \<open>
  \<^verbatim>\<open>parser.add_argument('-m', '--modules', default="all", choices=[...])\<close> followed
  by \<^verbatim>\<open>parser.parse_args()\<close>. The argument of \<open>parse_args\<close> is the value given to
  the option on the command line, \<open>None\<close> when the option is absent. An absent option
  takes the default; a given value that is not among the choices makes \<^verbatim>\<open>argparse\<close>
  report the error and exit with status 2.
\<close>

definition choices :: "string list" where
  "choices = [''gpr_encoding'', ''gpr_decoding'', ''all'']"

definition parse_args :: "string option \<Rightarrow> error + string" where
  "parse_args given =
     (case given of
        None \<Rightarrow> Inr ''all''
      | Some v \<Rightarrow> if v \<in> set choices then Inr v else Inl (SystemExit 2))"

section \<open>The feature defines\<close>

text \<open>\<^verbatim>\<open>g['targets'][0]['defines'].append(d)\<close>\<close>

definition defines_append :: "pyval \<Rightarrow> string \<Rightarrow> error + pyval" where
  "defines_append g d =
     bind_res (getitem_key g ''targets'') (\<lambda>ts.
     bind_res (getitem_idx ts 0) (\<lambda>t.
     bind_res (getitem_key t ''defines'') (\<lambda>ds.
     bind_res (append_py ds (Str d)) (\<lambda>ds'.
     Inr (put_key g ''targets'' (put_idx ts 0 (put_key t ''defines'' ds')))))))"

text \<open>The two \<^verbatim>\<open>if\<close> statements on \<^verbatim>\<open>args.modules\<close>, in the order of the script.\<close>

definition resolve :: "string \<Rightarrow> pyval \<Rightarrow> error + pyval" where
  "resolve modules g =
     bind_res
       (if modules = ''gpr_encoding'' \<or> modules = ''all''
        then defines_append g ''ENABLE_GPR_ENCODING=1''
        else defines_append g ''ENABLE_GPR_ENCODING=0'')
       (\<lambda>g1.
        if modules = ''gpr_decoding'' \<or> modules = ''all''
        then defines_append g1 ''ENABLE_GPR_DECODING=1''
        else defines_append g1 ''ENABLE_GPR_DECODING=0'')"

text \<open>
  The script from the literal on, with the standard library's parser: parse the option,
  resolve, and hand the object to \<^verbatim>\<open>print\<close>. The result is the object handed over,
  or the error that ended the script before.
\<close>

definition script :: "string option \<Rightarrow> error + pyval" where
  "script given = bind_res (parse_args given) (\<lambda>modules. resolve modules gyp_build_object)"


text \<open>
  The whole run. Before the literal, the script extends \<^verbatim>\<open>sys.path\<close> by a directory
  computed from \<^verbatim>\<open>__file__\<close> and executes \<^verbatim>\<open>from commonlib import *\<close>. The
  module is not among the sources at hand, so what its body does is not known: it may
  raise, it may change \<^verbatim>\<open>sys.argv\<close>, and its names, \<^verbatim>\<open>print\<close> among them, are
  bound in the script wherever the script does not bind them again later. A world holds
  what the script meets on its way:
  \<^item> \<open>file_name\<close>, \<open>sys_path\<close>: the values of \<^verbatim>\<open>__file__\<close> and \<^verbatim>\<open>sys.path\<close> at
    the start;
  \<^item> \<open>normpath_parent\<close>: the platform's \<^verbatim>\<open>os.path.normpath(os.path.join(f, ".."))\<close>;
  \<^item> \<open>import_commonlib\<close>: the outcome of the import under a search path, \<open>Some e\<close> when
    it raises \<open>e\<close> (the module is not found, or its body fails), \<open>None\<close> when it
    completes;
  \<^item> \<open>parser_exit\<close>: the status with which \<^verbatim>\<open>parse_args\<close> ends the run for a reason
    other than the value of the option (0 after \<^verbatim>\<open>-h\<close>, 2 for an argument it does not
    know or an option without a value); \<open>None\<close> when the command line it reads holds
    nothing but, at most, the option with a value;
  \<^item> \<open>modules_option\<close>: the value of the option in \<^verbatim>\<open>sys.argv\<close> as \<^verbatim>\<open>parse_args\<close>
    reads it, that is after the import;
  \<^item> \<open>print_name\<close>: what the name \<^verbatim>\<open>print\<close> does with its argument in the last
    line: \<open>builtin_print\<close>, unless the import has bound the name to something else.
\<close>

record world =
  file_name :: string
  sys_path :: "string list"
  normpath_parent :: "string \<Rightarrow> string"
  import_commonlib :: "string list \<Rightarrow> error option"
  parser_exit :: "nat option"
  modules_option :: "string option"
  print_name :: "pyval \<Rightarrow> error + pyval list"

definition module_path :: "world \<Rightarrow> string list" where
  "module_path w = sys_path w @ [normpath_parent w (file_name w) @ ''/../../SCRIPTS'']"

definition run :: "world \<Rightarrow> error + pyval list" where
  "run w =
     (case import_commonlib w (module_path w) of
        Some e \<Rightarrow> Inl e
      | None \<Rightarrow>
          (case parser_exit w of
             Some n \<Rightarrow> Inl (SystemExit n)
           | None \<Rightarrow> bind_res (script (modules_option w)) (print_name w)))"

section \<open>Reading the result\<close>

text \<open>The name of a define: the text before its first \<open>=\<close>.\<close>

fun define_key :: "pyval \<Rightarrow> string" where
  "define_key (Str s) = takeWhile (\<lambda>c. c \<noteq> CHR ''='') s"
| "define_key (Lst xs) = []"
| "define_key (Dict kvs) = []"

definition key_count :: "string \<Rightarrow> pyval list \<Rightarrow> nat" where
  "key_count k ds = length (filter (\<lambda>d. define_key d = k) ds)"

definition baseline_defines :: "pyval list" where
  "baseline_defines = [Str ''<@(default_defines)'', Str ''qDNGXMPFiles=0'', Str ''qDNGXMPDocOps=0'']"

text \<open>The two strings the script appends for a value of \<^verbatim>\<open>args.modules\<close>.\<close>

definition encoding_define :: "string \<Rightarrow> string" where
  "encoding_define modules =
     (if modules = ''gpr_encoding'' \<or> modules = ''all''
      then ''ENABLE_GPR_ENCODING=1'' else ''ENABLE_GPR_ENCODING=0'')"

definition decoding_define :: "string \<Rightarrow> string" where
  "decoding_define modules =
     (if modules = ''gpr_decoding'' \<or> modules = ''all''
      then ''ENABLE_GPR_DECODING=1'' else ''ENABLE_GPR_DECODING=0'')"

text \<open>The build object with the defines list of its target replaced by \<open>ds\<close>.\<close>

definition with_defines :: "pyval list \<Rightarrow> pyval" where
  "with_defines ds =
     put_key gyp_build_object ''targets'' (Lst [put_key target ''defines'' (Lst ds)])"

section \<open>Properties of the operations\<close>

lemma map_of_put:
  "map_of (map (\<lambda>(k', v'). if k' = k then (k', v) else (k', v')) kvs) k'' =
     (if k'' = k then (case map_of kvs k of None \<Rightarrow> None | Some _ \<Rightarrow> Some v) else map_of kvs k'')"
  by (induction kvs) (auto split: option.splits)

lemma getitem_put_key_same:
  "getitem_key g k = Inr old \<Longrightarrow> getitem_key (put_key g k v) k = Inr v"
  by (cases g) (auto simp: map_of_put split: option.splits)

lemma getitem_put_key_other:
  "k' \<noteq> k \<Longrightarrow> getitem_key (put_key g k v) k' = getitem_key g k'"
  by (cases g) (auto simp: map_of_put split: option.splits)

lemma getitem_put_idx_same:
  "getitem_idx ts i = Inr t \<Longrightarrow> getitem_key t k = Inr old \<Longrightarrow>
   getitem_idx (put_idx ts i v) i = Inr v"
  by (cases ts) (auto split: if_splits)

lemma getitem_put_idx_other:
  "j \<noteq> i \<Longrightarrow> getitem_idx (put_idx ts i v) j = getitem_idx ts j"
  by (cases ts) (auto split: if_splits)

lemma bind_res_Inr:
  "bind_res r f = Inr y \<longleftrightarrow> (\<exists>x. r = Inr x \<and> f x = Inr y)"
  by (cases r) (auto simp: bind_res_def)

lemma defines_append_ok:
  assumes "target_field g ''defines'' = Inr (Lst ds)"
  shows "\<exists>g'. defines_append g d = Inr g' \<and>
              target_field g' ''defines'' = Inr (Lst (ds @ [Str d]))"
proof -
  from assms obtain ts t where
    ts: "getitem_key g ''targets'' = Inr ts" and
    t: "getitem_idx ts 0 = Inr t" and
    dl: "getitem_key t ''defines'' = Inr (Lst ds)"
    unfolding target_field_def bind_res_Inr by blast
  let ?t' = "put_key t ''defines'' (Lst (ds @ [Str d]))"
  let ?g' = "put_key g ''targets'' (put_idx ts 0 ?t')"
  have run: "defines_append g d = Inr ?g'"
    by (simp add: defines_append_def bind_res_def ts t dl)
  have "target_field ?g' ''defines'' = Inr (Lst (ds @ [Str d]))"
    by (simp add: target_field_def bind_res_def
        getitem_put_key_same [OF ts] getitem_put_idx_same [OF t dl] getitem_put_key_same [OF dl])
  with run show ?thesis by blast
qed

lemma defines_append_frame:
  assumes "defines_append g d = Inr g'" and "k \<noteq> ''defines''"
  shows "target_field g' k = target_field g k"
proof -
  from assms(1) obtain ts t ds ds' where
    ts: "getitem_key g ''targets'' = Inr ts" and
    t: "getitem_idx ts 0 = Inr t" and
    dl: "getitem_key t ''defines'' = Inr ds" and
    g': "g' = put_key g ''targets'' (put_idx ts 0 (put_key t ''defines'' ds'))"
    unfolding defines_append_def bind_res_Inr by auto
  show ?thesis
    by (simp add: g' target_field_def bind_res_def ts t
        getitem_put_key_same [OF ts] getitem_put_idx_same [OF t dl]
        getitem_put_key_other [OF assms(2)])
qed

lemma resolve_eq:
  "resolve m g =
     bind_res (defines_append g (encoding_define m))
       (\<lambda>g1. defines_append g1 (decoding_define m))"
  unfolding resolve_def encoding_define_def decoding_define_def
  by (cases "m = ''gpr_encoding'' \<or> m = ''all''"; cases "m = ''gpr_decoding'' \<or> m = ''all''")
     (simp_all only: if_True if_False)

lemma resolve_ok:
  assumes "target_field g ''defines'' = Inr (Lst ds)"
  shows "\<exists>g'. resolve m g = Inr g' \<and>
              target_field g' ''defines'' =
                Inr (Lst (ds @ [Str (encoding_define m), Str (decoding_define m)]))"
proof -
  from defines_append_ok [OF assms, of "encoding_define m"] obtain g1 where
    g1: "defines_append g (encoding_define m) = Inr g1" and
    d1: "target_field g1 ''defines'' = Inr (Lst (ds @ [Str (encoding_define m)]))"
    by blast
  from defines_append_ok [OF d1, of "decoding_define m"] obtain g2 where
    g2: "defines_append g1 (decoding_define m) = Inr g2" and
    d2: "target_field g2 ''defines'' =
           Inr (Lst ((ds @ [Str (encoding_define m)]) @ [Str (decoding_define m)]))"
    by blast
  have "resolve m g = Inr g2"
    by (simp add: resolve_eq bind_res_def g1 g2)
  with d2 show ?thesis by simp
qed

lemma resolve_frame:
  assumes "resolve m g = Inr g'" and "k \<noteq> ''defines''"
  shows "target_field g' k = target_field g k"
proof -
  from assms(1) obtain g1 d1 d2 where
    a1: "defines_append g d1 = Inr g1" and a2: "defines_append g1 d2 = Inr g'"
    unfolding resolve_eq bind_res_Inr by blast
  show ?thesis
    using defines_append_frame [OF a2 assms(2)] defines_append_frame [OF a1 assms(2)] by simp
qed

lemma gyp_defines: "target_field gyp_build_object ''defines'' = Inr (Lst baseline_defines)"
  by (simp add: target_field_def gyp_build_object_def target_def bind_res_def baseline_defines_def)

lemma gyp_sources: "target_field gyp_build_object ''sources'' = Inr (Lst sources)"
  by (simp add: target_field_def gyp_build_object_def target_def bind_res_def)

lemma gyp_target_name: "target_field gyp_build_object ''target_name'' = Inr (Str ''dng_sdk'')"
  by (simp add: target_field_def gyp_build_object_def target_def bind_res_def)

lemma gyp_type: "target_field gyp_build_object ''type'' = Inr (Str ''static_library'')"
  by (simp add: target_field_def gyp_build_object_def target_def bind_res_def)

lemma gyp_include_dirs: "target_field gyp_build_object ''include_dirs'' = Inr (Lst [])"
  by (simp add: target_field_def gyp_build_object_def target_def bind_res_def)

lemma gyp_includes:
  "target_field gyp_build_object ''includes'' = Inr (Lst [Str ''../xmp_sdk/xmp_sdk.gypi''])"
  by (simp add: target_field_def gyp_build_object_def target_def bind_res_def)

lemma script_valid: "s \<in> set choices \<Longrightarrow> script (Some s) = resolve s gyp_build_object"
  by (simp add: script_def parse_args_def bind_res_def)

lemma script_invalid: "s \<notin> set choices \<Longrightarrow> script (Some s) = Inl (SystemExit 2)"
  by (simp add: script_def parse_args_def bind_res_def)

lemma script_default: "script None = resolve ''all'' gyp_build_object"
  by (simp add: script_def parse_args_def bind_res_def)

lemma script_Inr:
  assumes "script given = Inr g"
  shows "\<exists>m. resolve m gyp_build_object = Inr g \<and> m \<in> set choices \<and>
             (given = None \<and> m = ''all'' \<or> given = Some m)"
proof (cases given)
  case None
  with assms show ?thesis by (auto simp: script_default choices_def)
next
  case (Some v)
  show ?thesis
  proof (cases "v \<in> set choices")
    case True
    with assms Some show ?thesis by (auto simp: script_valid)
  next
    case False
    with assms Some show ?thesis by (simp add: script_invalid)
  qed
qed

lemma length_sources: "length sources = 140"
  by (simp add: sources_def)

lemma hd_sources: "sources ! 0 = Str ''./dng_validate.cpp''"
  by (simp add: sources_def)

lemma resolve_gyp:
  "resolve m gyp_build_object =
     Inr (with_defines (baseline_defines @ [Str (encoding_define m), Str (decoding_define m)]))"
proof -
  have t: "getitem_key gyp_build_object ''targets'' = Inr (Lst [target])"
    by (simp add: gyp_build_object_def)
  have d: "getitem_key target ''defines'' = Inr (Lst baseline_defines)"
    by (simp add: target_def baseline_defines_def)
  have a1: "defines_append gyp_build_object e = Inr (with_defines (baseline_defines @ [Str e]))"
    for e
    by (simp add: defines_append_def with_defines_def bind_res_def t d)
  have t1: "getitem_key (put_key gyp_build_object ''targets'' v) ''targets'' = Inr v" for v
    by (rule getitem_put_key_same [OF t])
  have d1: "getitem_key (put_key target ''defines'' v) ''defines'' = Inr v" for v
    by (rule getitem_put_key_same [OF d])
  have pp: "put_key (put_key x k v) k v' = put_key x k v'" for x k v v'
    by (cases x) (auto simp: comp_def split: prod.splits)
  have a2: "defines_append (with_defines (baseline_defines @ [Str e])) e' =
              Inr (with_defines (baseline_defines @ [Str e, Str e']))" for e e'
    by (simp add: defines_append_def with_defines_def bind_res_def t1 d1 pp)
  show ?thesis
    by (simp add: resolve_eq a1 a2 bind_res_def)
qed

lemma with_defines_defines: "target_field (with_defines ds) ''defines'' = Inr (Lst ds)"
  by (simp add: with_defines_def target_field_def gyp_build_object_def target_def bind_res_def)

lemma with_defines_other:
  "k \<noteq> ''defines'' \<Longrightarrow> target_field (with_defines ds) k = target_field gyp_build_object k"
  by (simp add: with_defines_def target_field_def gyp_build_object_def target_def bind_res_def)

lemma encoding_define_cases:
  "encoding_define ''gpr_encoding'' = ''ENABLE_GPR_ENCODING=1''"
  "encoding_define ''gpr_decoding'' = ''ENABLE_GPR_ENCODING=0''"
  "encoding_define ''all'' = ''ENABLE_GPR_ENCODING=1''"
  by (simp_all add: encoding_define_def)

lemma decoding_define_cases:
  "decoding_define ''gpr_encoding'' = ''ENABLE_GPR_DECODING=0''"
  "decoding_define ''gpr_decoding'' = ''ENABLE_GPR_DECODING=1''"
  "decoding_define ''all'' = ''ENABLE_GPR_DECODING=1''"
  by (simp_all add: decoding_define_def)

lemma choices_cases: "s \<in> set choices \<longleftrightarrow> s = ''gpr_encoding'' \<or> s = ''gpr_decoding'' \<or> s = ''all''"
  by (simp add: choices_def)

section \<open>The claims\<close>

text \<open>
  C1. For every valid module selection the resolver appends the define
  \<open>ENABLE_GPR_ENCODING\<close>, with value 1 if the selection is \<open>gpr_encoding\<close> or \<open>all\<close>
  and with value 0 otherwise, that is for \<open>gpr_decoding\<close>. Stated for the resolver on any
  build object whose target has a defines list \<open>ds\<close>: the list afterwards is \<open>ds\<close>, the
  encoding define, and one more entry.
\<close>

theorem resolve_appends_encoding_define:
  assumes "s \<in> set choices" and "target_field g ''defines'' = Inr (Lst ds)"
  shows "\<exists>g' e d. resolve s g = Inr g' \<and>
           target_field g' ''defines'' = Inr (Lst (ds @ [Str e, d])) \<and>
           e = (if s = ''gpr_encoding'' \<or> s = ''all''
                then ''ENABLE_GPR_ENCODING=1'' else ''ENABLE_GPR_ENCODING=0'') \<and>
           (e = ''ENABLE_GPR_ENCODING=0'' \<longleftrightarrow> s = ''gpr_decoding'')"
proof -
  from resolve_ok [OF assms(2), of s] obtain g' where
    "resolve s g = Inr g'" and
    "target_field g' ''defines'' =
       Inr (Lst (ds @ [Str (encoding_define s), Str (decoding_define s)]))"
    by blast
  moreover have "encoding_define s =
      (if s = ''gpr_encoding'' \<or> s = ''all''
       then ''ENABLE_GPR_ENCODING=1'' else ''ENABLE_GPR_ENCODING=0'')"
    by (simp add: encoding_define_def)
  moreover have "encoding_define s = ''ENABLE_GPR_ENCODING=0'' \<longleftrightarrow> s = ''gpr_decoding''"
    using assms(1) unfolding choices_cases by (auto simp: encoding_define_cases)
  ultimately show ?thesis by metis
qed

theorem resolve_appends_encoding_define_witness:
  "''gpr_decoding'' \<in> set choices \<and>
   target_field gyp_build_object ''defines'' = Inr (Lst baseline_defines) \<and>
   (\<exists>g' d. resolve ''gpr_decoding'' gyp_build_object = Inr g' \<and>
      target_field g' ''defines'' =
        Inr (Lst (baseline_defines @ [Str ''ENABLE_GPR_ENCODING=0'', d])))"
proof -
  have h: "''gpr_decoding'' \<in> set choices" by (simp add: choices_def)
  from resolve_appends_encoding_define [OF h gyp_defines]
  show ?thesis using h gyp_defines by auto
qed

text \<open>
  C2. For every valid module selection the resolver appends the define
  \<open>ENABLE_GPR_DECODING\<close>, with value 1 if the selection is \<open>gpr_decoding\<close> or \<open>all\<close>
  and with value 0 otherwise, that is for \<open>gpr_encoding\<close>. It is the last entry of the
  defines list after resolution, behind one entry added before it.
\<close>

theorem resolve_appends_decoding_define:
  assumes "s \<in> set choices" and "target_field g ''defines'' = Inr (Lst ds)"
  shows "\<exists>g' e d. resolve s g = Inr g' \<and>
           target_field g' ''defines'' = Inr (Lst (ds @ [e, Str d])) \<and>
           d = (if s = ''gpr_decoding'' \<or> s = ''all''
                then ''ENABLE_GPR_DECODING=1'' else ''ENABLE_GPR_DECODING=0'') \<and>
           (d = ''ENABLE_GPR_DECODING=0'' \<longleftrightarrow> s = ''gpr_encoding'')"
proof -
  from resolve_ok [OF assms(2), of s] obtain g' where
    "resolve s g = Inr g'" and
    "target_field g' ''defines'' =
       Inr (Lst (ds @ [Str (encoding_define s), Str (decoding_define s)]))"
    by blast
  moreover have "decoding_define s =
      (if s = ''gpr_decoding'' \<or> s = ''all''
       then ''ENABLE_GPR_DECODING=1'' else ''ENABLE_GPR_DECODING=0'')"
    by (simp add: decoding_define_def)
  moreover have "decoding_define s = ''ENABLE_GPR_DECODING=0'' \<longleftrightarrow> s = ''gpr_encoding''"
    using assms(1) unfolding choices_cases by (auto simp: decoding_define_cases)
  ultimately show ?thesis by metis
qed

theorem resolve_appends_decoding_define_witness:
  "''gpr_encoding'' \<in> set choices \<and>
   target_field gyp_build_object ''defines'' = Inr (Lst baseline_defines) \<and>
   (\<exists>g' e. resolve ''gpr_encoding'' gyp_build_object = Inr g' \<and>
      target_field g' ''defines'' =
        Inr (Lst (baseline_defines @ [e, Str ''ENABLE_GPR_DECODING=0''])))"
proof -
  have h: "''gpr_encoding'' \<in> set choices" by (simp add: choices_def)
  from resolve_appends_decoding_define [OF h gyp_defines]
  show ?thesis using h gyp_defines by auto
qed

text \<open>
  C3. A value of the option outside \<open>gpr_encoding\<close>, \<open>gpr_decoding\<close>, \<open>all\<close> is
  rejected by the parser, before the resolver runs: the script ends with the parser's
  exit status, and no run in which the parser reads that value prints anything, so
  none prints an object with both features silently disabled either.
\<close>

theorem invalid_selection_rejected:
  assumes "v \<notin> set choices"
  shows "parse_args (Some v) = Inl (SystemExit 2) \<and>
         script (Some v) = Inl (SystemExit 2) \<and>
         (\<forall>w g. modules_option w = Some v \<longrightarrow> run w \<noteq> Inr g)"
proof -
  have p: "parse_args (Some v) = Inl (SystemExit 2)"
    using assms by (simp add: parse_args_def)
  have "run w \<noteq> Inr g" if "modules_option w = Some v" for w g
    using that script_invalid [OF assms] by (simp add: run_def bind_res_def split: option.splits)
  with p script_invalid [OF assms] show ?thesis by blast
qed

theorem invalid_selection_rejected_witness:
  "''gpr'' \<notin> set choices \<and>
   parse_args (Some ''gpr'') = Inl (SystemExit 2) \<and>
   script (Some ''gpr'') = Inl (SystemExit 2)"
proof -
  have h: "''gpr'' \<notin> set choices" by (simp add: choices_def)
  from invalid_selection_rejected [OF h] show ?thesis using h by blast
qed

text \<open>
  C4. For every valid module selection the defines list of the printed object has the
  length of the baseline list plus 2; it is the baseline list followed by the encoding
  define and then the decoding define.
\<close>

theorem defines_length_and_order:
  assumes "s \<in> set choices"
  shows "\<exists>g ds0 ds. target_field gyp_build_object ''defines'' = Inr (Lst ds0) \<and>
           script (Some s) = Inr g \<and>
           target_field g ''defines'' = Inr (Lst ds) \<and>
           length ds = length ds0 + 2 \<and>
           take (length ds0) ds = ds0 \<and>
           define_key (ds ! length ds0) = ''ENABLE_GPR_ENCODING'' \<and>
           define_key (ds ! (length ds0 + 1)) = ''ENABLE_GPR_DECODING'' \<and>
           define_key (last (butlast ds)) = ''ENABLE_GPR_ENCODING'' \<and>
           define_key (last ds) = ''ENABLE_GPR_DECODING''"
proof -
  let ?ds = "baseline_defines @ [Str (encoding_define s), Str (decoding_define s)]"
  have run: "script (Some s) = Inr (with_defines ?ds)"
    by (simp add: script_valid [OF assms] resolve_gyp)
  have ke: "define_key (Str (encoding_define s)) = ''ENABLE_GPR_ENCODING''"
    by (simp add: encoding_define_def)
  have kd: "define_key (Str (decoding_define s)) = ''ENABLE_GPR_DECODING''"
    by (simp add: decoding_define_def)
  have b: "butlast ?ds = baseline_defines @ [Str (encoding_define s)]"
    by (simp add: butlast_append)
  have "length ?ds = length baseline_defines + 2"
    and "take (length baseline_defines) ?ds = baseline_defines"
    and "define_key (?ds ! length baseline_defines) = ''ENABLE_GPR_ENCODING''"
    and "define_key (?ds ! (length baseline_defines + 1)) = ''ENABLE_GPR_DECODING''"
    and "define_key (last (butlast ?ds)) = ''ENABLE_GPR_ENCODING''"
    and "define_key (last ?ds) = ''ENABLE_GPR_DECODING''"
    using ke kd by (simp_all add: b nth_append del: butlast_append)
  with gyp_defines run with_defines_defines [of ?ds] show ?thesis by blast
qed

theorem defines_length_and_order_witness:
  "''all'' \<in> set choices \<and>
   (\<exists>g. script (Some ''all'') = Inr g \<and>
      target_field g ''defines'' =
        Inr (Lst [Str ''<@(default_defines)'', Str ''qDNGXMPFiles=0'', Str ''qDNGXMPDocOps=0'',
                  Str ''ENABLE_GPR_ENCODING=1'', Str ''ENABLE_GPR_DECODING=1'']))"
proof -
  have h: "''all'' \<in> set choices" by (simp add: choices_def)
  from defines_length_and_order [OF h] obtain g ds0 ds where
    "script (Some ''all'') = Inr g" and "target_field g ''defines'' = Inr (Lst ds)"
    by blast
  moreover have "script (Some ''all'') =
      Inr (with_defines (baseline_defines @ [Str ''ENABLE_GPR_ENCODING=1'', Str ''ENABLE_GPR_DECODING=1'']))"
    by (simp add: script_valid [OF h] resolve_gyp encoding_define_cases decoding_define_cases)
  ultimately show ?thesis
    using h by (auto simp: with_defines_defines baseline_defines_def)
qed

text \<open>
  C5. For every valid module selection the printed object is the literal with the
  defines list of its one target replaced and nothing else changed: every other field of
  the target (name, type, include directories, included configurations, sources) reads
  as before, and the sources list is the same list, in length and order.
\<close>

theorem resolution_changes_defines_only:
  assumes "s \<in> set choices"
  shows "\<exists>g ds. script (Some s) = Inr g \<and>
           g = with_defines ds \<and>
           (\<forall>k. k \<noteq> ''defines'' \<longrightarrow> target_field g k = target_field gyp_build_object k) \<and>
           target_field gyp_build_object ''sources'' = Inr (Lst sources) \<and>
           target_field g ''sources'' = Inr (Lst sources) \<and>
           target_field g ''target_name'' = target_field gyp_build_object ''target_name'' \<and>
           target_field g ''type'' = target_field gyp_build_object ''type'' \<and>
           target_field g ''include_dirs'' = target_field gyp_build_object ''include_dirs'' \<and>
           target_field g ''includes'' = target_field gyp_build_object ''includes''"
proof -
  let ?ds = "baseline_defines @ [Str (encoding_define s), Str (decoding_define s)]"
  have run: "script (Some s) = Inr (with_defines ?ds)"
    by (simp add: script_valid [OF assms] resolve_gyp)
  have frame: "\<forall>k. k \<noteq> ''defines'' \<longrightarrow>
      target_field (with_defines ?ds) k = target_field gyp_build_object k"
    by (simp add: with_defines_other)
  have "target_field (with_defines ?ds) ''sources'' = Inr (Lst sources)"
    and "target_field (with_defines ?ds) ''target_name'' = target_field gyp_build_object ''target_name''"
    and "target_field (with_defines ?ds) ''type'' = target_field gyp_build_object ''type''"
    and "target_field (with_defines ?ds) ''include_dirs'' = target_field gyp_build_object ''include_dirs''"
    and "target_field (with_defines ?ds) ''includes'' = target_field gyp_build_object ''includes''"
    by (simp_all add: with_defines_other gyp_sources)
  with run frame gyp_sources show ?thesis by blast
qed

theorem resolution_changes_defines_only_witness:
  "''gpr_decoding'' \<in> set choices \<and>
   (\<exists>g. script (Some ''gpr_decoding'') = Inr g \<and>
      target_field g ''sources'' = Inr (Lst sources) \<and>
      target_field g ''target_name'' = Inr (Str ''dng_sdk'') \<and>
      target_field g ''type'' = Inr (Str ''static_library'') \<and>
      target_field g ''include_dirs'' = Inr (Lst []) \<and>
      target_field g ''includes'' = Inr (Lst [Str ''../xmp_sdk/xmp_sdk.gypi'']))"
proof -
  have h: "''gpr_decoding'' \<in> set choices" by (simp add: choices_def)
  from resolution_changes_defines_only [OF h] show ?thesis
    using h by (auto simp: gyp_target_name gyp_type gyp_include_dirs gyp_includes)
qed

text \<open>
  C6. For every valid module selection the defines list of the printed object holds
  exactly one entry named \<open>ENABLE_GPR_ENCODING\<close> and exactly one named
  \<open>ENABLE_GPR_DECODING\<close>.
\<close>

theorem one_entry_per_feature:
  assumes "s \<in> set choices"
  shows "\<exists>g ds. script (Some s) = Inr g \<and>
           target_field g ''defines'' = Inr (Lst ds) \<and>
           key_count ''ENABLE_GPR_ENCODING'' ds = 1 \<and>
           key_count ''ENABLE_GPR_DECODING'' ds = 1"
proof -
  let ?ds = "baseline_defines @ [Str (encoding_define s), Str (decoding_define s)]"
  have run: "script (Some s) = Inr (with_defines ?ds)"
    by (simp add: script_valid [OF assms] resolve_gyp)
  have "key_count ''ENABLE_GPR_ENCODING'' ?ds = 1"
    by (simp add: key_count_def baseline_defines_def encoding_define_def decoding_define_def)
  moreover have "key_count ''ENABLE_GPR_DECODING'' ?ds = 1"
    by (simp add: key_count_def baseline_defines_def encoding_define_def decoding_define_def)
  ultimately show ?thesis
    using run with_defines_defines [of ?ds] by blast
qed

theorem one_entry_per_feature_witness:
  "''gpr_encoding'' \<in> set choices \<and>
   (\<exists>g ds. script (Some ''gpr_encoding'') = Inr g \<and>
      target_field g ''defines'' = Inr (Lst ds) \<and>
      key_count ''ENABLE_GPR_ENCODING'' ds = 1 \<and>
      key_count ''ENABLE_GPR_DECODING'' ds = 1)"
proof -
  have h: "''gpr_encoding'' \<in> set choices" by (simp add: choices_def)
  from one_entry_per_feature [OF h] show ?thesis using h by blast
qed




text \<open>
  C8. When the option is not given, the selection is \<open>all\<close>: the script does what it
  does for \<open>all\<close>, and the printed defines end with \<open>ENABLE_GPR_ENCODING=1\<close> and
  \<open>ENABLE_GPR_DECODING=1\<close>.
\<close>

theorem default_selection_is_all:
  "parse_args None = Inr ''all'' \<and>
   script None = script (Some ''all'') \<and>
   script None =
     Inr (with_defines
           [Str ''<@(default_defines)'', Str ''qDNGXMPFiles=0'', Str ''qDNGXMPDocOps=0'',
            Str ''ENABLE_GPR_ENCODING=1'', Str ''ENABLE_GPR_DECODING=1'']) \<and>
   target_field
     (with_defines
           [Str ''<@(default_defines)'', Str ''qDNGXMPFiles=0'', Str ''qDNGXMPDocOps=0'',
            Str ''ENABLE_GPR_ENCODING=1'', Str ''ENABLE_GPR_DECODING=1'']) ''defines'' =
     Inr (Lst [Str ''<@(default_defines)'', Str ''qDNGXMPFiles=0'', Str ''qDNGXMPDocOps=0'',
            Str ''ENABLE_GPR_ENCODING=1'', Str ''ENABLE_GPR_DECODING=1''])"
proof -
  have h: "''all'' \<in> set choices" by (simp add: choices_def)
  have "parse_args None = Inr ''all''" by (simp add: parse_args_def)
  moreover have "script None = script (Some ''all'')"
    by (simp add: script_default script_valid [OF h])
  moreover have "script None =
     Inr (with_defines
           [Str ''<@(default_defines)'', Str ''qDNGXMPFiles=0'', Str ''qDNGXMPDocOps=0'',
            Str ''ENABLE_GPR_ENCODING=1'', Str ''ENABLE_GPR_DECODING=1''])"
    by (simp add: script_default resolve_gyp encoding_define_cases decoding_define_cases
        baseline_defines_def)
  ultimately show ?thesis by (simp add: with_defines_defines)
qed

text \<open>
  C9. For a valid module selection the two appended defines are never both \<open>=0\<close>.
  The two \<^verbatim>\<open>if\<close> statements by themselves would append both \<open>=0\<close> for exactly the
  values outside the choices, and for those the script stops in the parser and prints
  nothing.
\<close>

theorem both_disabled_only_outside_choices:
  "(v \<in> set choices \<longrightarrow>
      (\<exists>g e d. script (Some v) = Inr g \<and>
         target_field g ''defines'' = Inr (Lst (baseline_defines @ [Str e, Str d])) \<and>
         \<not> (e = ''ENABLE_GPR_ENCODING=0'' \<and> d = ''ENABLE_GPR_DECODING=0''))) \<and>
   (v \<notin> set choices \<longrightarrow>
      script (Some v) = Inl (SystemExit 2) \<and>
      resolve v gyp_build_object =
        Inr (with_defines (baseline_defines @
               [Str ''ENABLE_GPR_ENCODING=0'', Str ''ENABLE_GPR_DECODING=0''])))"
proof (intro conjI impI)
  assume v: "v \<in> set choices"
  let ?ds = "baseline_defines @ [Str (encoding_define v), Str (decoding_define v)]"
  have "script (Some v) = Inr (with_defines ?ds)"
    by (simp add: script_valid [OF v] resolve_gyp)
  moreover have "\<not> (encoding_define v = ''ENABLE_GPR_ENCODING=0'' \<and>
                    decoding_define v = ''ENABLE_GPR_DECODING=0'')"
    using v unfolding choices_cases by (auto simp: encoding_define_cases decoding_define_cases)
  ultimately show "\<exists>g e d. script (Some v) = Inr g \<and>
         target_field g ''defines'' = Inr (Lst (baseline_defines @ [Str e, Str d])) \<and>
         \<not> (e = ''ENABLE_GPR_ENCODING=0'' \<and> d = ''ENABLE_GPR_DECODING=0'')"
    using with_defines_defines [of ?ds] by blast
next
  assume v: "v \<notin> set choices"
  show "script (Some v) = Inl (SystemExit 2)" by (rule script_invalid [OF v])
  from v have "encoding_define v = ''ENABLE_GPR_ENCODING=0''"
    and "decoding_define v = ''ENABLE_GPR_DECODING=0''"
    by (simp_all add: choices_cases encoding_define_def decoding_define_def)
  then show "resolve v gyp_build_object =
        Inr (with_defines (baseline_defines @
               [Str ''ENABLE_GPR_ENCODING=0'', Str ''ENABLE_GPR_DECODING=0'']))"
    by (simp add: resolve_gyp)
qed

theorem both_disabled_only_outside_choices_witness:
  "''gpr_decoding'' \<in> set choices \<and>
   (\<exists>g e d. script (Some ''gpr_decoding'') = Inr g \<and>
      target_field g ''defines'' = Inr (Lst (baseline_defines @ [Str e, Str d])) \<and>
      \<not> (e = ''ENABLE_GPR_ENCODING=0'' \<and> d = ''ENABLE_GPR_DECODING=0'')) \<and>
   ''none'' \<notin> set choices \<and>
   script (Some ''none'') = Inl (SystemExit 2)"
proof -
  have h: "''gpr_decoding'' \<in> set choices" and h': "''none'' \<notin> set choices"
    by (simp_all add: choices_def)
  from both_disabled_only_outside_choices [of "''gpr_decoding''"]
    both_disabled_only_outside_choices [of "''none''"]
  show ?thesis using h h' by blast
qed

text \<open>
  The sources list of the literal has 140 entries, and the object printed for \<open>all\<close>
  carries that list: a count of 141 does not hold.
\<close>

theorem sources_count_counterexample:
  "\<not> isl (script (Some ''all'')) \<and>
   target_field (projr (script (Some ''all''))) ''sources'' = Inr (Lst sources) \<and>
   length sources = 140 \<and> length sources \<noteq> 141"
proof -
  have h: "''all'' \<in> set choices" by (simp add: choices_def)
  have "script (Some ''all'') =
      Inr (with_defines (baseline_defines @ [Str (encoding_define ''all''), Str (decoding_define ''all'')]))"
    by (simp add: script_valid [OF h] resolve_gyp)
  then show ?thesis
    by (simp add: with_defines_other gyp_sources length_sources)
qed

text \<open>
  C10, with the count the literal has. Whatever the option, a printed object has the
  target name \<open>dng_sdk\<close> and the type \<open>static_library\<close>, a non-empty sources list of
  140 entries that begins with \<open>./dng_validate.cpp\<close>, and a defines list that begins
  with the three baseline defines in the order of the literal.
\<close>

theorem fixed_fields_of_descriptor:
  assumes "script given = Inr g"
  shows "target_field g ''target_name'' = Inr (Str ''dng_sdk'') \<and>
         target_field g ''type'' = Inr (Str ''static_library'') \<and>
         (\<exists>ss. target_field g ''sources'' = Inr (Lst ss) \<and> ss \<noteq> [] \<and>
            length ss = 140 \<and> ss ! 0 = Str ''./dng_validate.cpp'') \<and>
         (\<exists>ds. target_field g ''defines'' = Inr (Lst ds) \<and>
            take 3 ds =
              [Str ''<@(default_defines)'', Str ''qDNGXMPFiles=0'', Str ''qDNGXMPDocOps=0''])"
proof -
  from script_Inr [OF assms] obtain m where "resolve m gyp_build_object = Inr g" by blast
  then have g: "g = with_defines (baseline_defines @ [Str (encoding_define m), Str (decoding_define m)])"
    by (simp add: resolve_gyp)
  have ne: "sources \<noteq> []"
    using length_sources by auto
  have "target_field g ''target_name'' = Inr (Str ''dng_sdk'')"
    by (simp add: g with_defines_other gyp_target_name)
  moreover have "target_field g ''type'' = Inr (Str ''static_library'')"
    by (simp add: g with_defines_other gyp_type)
  moreover have "target_field g ''sources'' = Inr (Lst sources)"
    by (simp add: g with_defines_other gyp_sources)
  moreover have "target_field g ''defines'' =
      Inr (Lst (baseline_defines @ [Str (encoding_define m), Str (decoding_define m)]))"
    by (simp add: g with_defines_defines)
  moreover have "take 3 (baseline_defines @ [Str (encoding_define m), Str (decoding_define m)]) =
      [Str ''<@(default_defines)'', Str ''qDNGXMPFiles=0'', Str ''qDNGXMPDocOps=0'']"
    by (simp add: baseline_defines_def)
  ultimately show ?thesis
    using ne length_sources hd_sources by blast
qed

theorem fixed_fields_of_descriptor_witness:
  "script None =
     Inr (with_defines (baseline_defines @
            [Str ''ENABLE_GPR_ENCODING=1'', Str ''ENABLE_GPR_DECODING=1''])) \<and>
   target_field (with_defines (baseline_defines @
            [Str ''ENABLE_GPR_ENCODING=1'', Str ''ENABLE_GPR_DECODING=1''])) ''target_name'' =
     Inr (Str ''dng_sdk'') \<and>
   target_field (with_defines (baseline_defines @
            [Str ''ENABLE_GPR_ENCODING=1'', Str ''ENABLE_GPR_DECODING=1''])) ''type'' =
     Inr (Str ''static_library'')"
proof -
  have sc: "script None =
     Inr (with_defines (baseline_defines @
            [Str ''ENABLE_GPR_ENCODING=1'', Str ''ENABLE_GPR_DECODING=1'']))"
    by (simp add: script_default resolve_gyp encoding_define_cases decoding_define_cases)
  from fixed_fields_of_descriptor [OF sc] show ?thesis using sc by blast
qed

end
